theory Spec2Isabelle
  imports Main "HOL-Library.Word"
begin

section \<open>The streaming chat bridge of levee-go\<close>

text \<open>
  A shallow embedding of the streaming part of the SDK: \<^verbatim>\<open>ChatSession\<close> and
  \<^verbatim>\<open>LLMClient\<close> of \<^verbatim>\<open>llm.go\<close>, and the relay \<^verbatim>\<open>wsSession\<close> of the WebSocket
  handler. Every method runs under its receiver's mutex, so a call is one atomic step
  on the receiver's state: the model passes that state explicitly and returns the new one.
\<close>

subsection \<open>Values\<close>

text \<open>
  A Go \<^verbatim>\<open>error\<close> is either made by \<^verbatim>\<open>fmt.Errorf\<close> from a text, or wraps another
  error behind a prefix (\<^verbatim>\<open>fmt.Errorf("...: %w", err)\<close>). Errors that come from the
  transport or from a callback are values of the same type.
\<close>

datatype error = Errorf string | Wrapf string error

text \<open>
  \<^verbatim>\<open>int32\<close> and \<^verbatim>\<open>int64\<close> are two's complement words. The code only copies its
  \<^verbatim>\<open>float32\<close> and \<^verbatim>\<open>float64\<close> values, so a float is its IEEE-754 bit pattern; Go's zero
  value \<^verbatim>\<open>0.0\<close> is the pattern \<open>0\<close>.
\<close>

type_synonym int32 = "32 word"
type_synonym int64 = "64 word"
type_synonym float32 = "32 word"
type_synonym float64 = "64 word"

record ChatMessage =
  Role :: string
  Content :: string

record ChatRequest =
  Messages :: "ChatMessage list"
  SystemPrompt :: string
  Model :: string
  MaxTokens :: int32
  Temperature :: float32

text \<open>Fields of \<^verbatim>\<open>ChatResponse\<close>; the prefix keeps them apart from the fields above.\<close>

record ChatResponse =
  resp_Content :: string
  resp_Model :: string
  resp_InputTokens :: int64
  resp_OutputTokens :: int64
  resp_CostUSD :: float64
  resp_LatencyMs :: int64
  resp_StopReason :: string

record StreamChunk =
  chunk_Content :: string
  chunk_Index :: int32

subsection \<open>The wire messages of package llmpb\<close>

text \<open>
  Modelled from the spec: package \<^verbatim>\<open>llmpb\<close>, the generated protobuf code, is not among
  the sources. The spec gives the two envelopes as tagged unions, over start, message,
  abort and tool result from the client and over session started, chunk, tool call,
  completion, error and aborted from the backend; the messages below have the fields
  that \<^verbatim>\<open>llm.go\<close> and the relay read and write.
\<close>

record pb_Message =
  pb_Role :: string
  pb_Content :: string

record StartChatRequest =
  start_ApiKey :: string
  start_SystemPrompt :: string
  start_Model :: string
  start_MaxTokens :: int32
  start_Temperature :: float32
  start_Messages :: "pb_Message list"

text \<open>The \<^verbatim>\<open>oneof\<close> of a client envelope \<^verbatim>\<open>llmpb.ChatRequest\<close>.\<close>

datatype pb_ChatRequest =
    ChatRequest_Start StartChatRequest
  | ChatRequest_Message string
  | ChatRequest_Abort string
  | ChatRequest_ToolResult string string bool

record CompletionResponse =
  FullContent :: string
  StopReason :: string
  InputTokens :: int64
  OutputTokens :: int64
  CostUsd :: float64
  LatencyMs :: int64

text \<open>
  The \<^verbatim>\<open>oneof\<close> of a backend envelope \<^verbatim>\<open>llmpb.ChatResponse\<close>: session id, provider
  and model of the acknowledgement; content and index of a chunk; id, name and arguments
  of a tool call; the completion; code, message and retryable flag of an error; the
  reason of an abort. \<open>ChatResponse_Unset\<close> is an envelope whose \<^verbatim>\<open>oneof\<close> is nil.
\<close>

datatype pb_ChatResponse =
    ChatResponse_SessionStarted string string string
  | ChatResponse_Chunk string int32
  | ChatResponse_ToolCall string string string
  | ChatResponse_Completion CompletionResponse
  | ChatResponse_Error string string bool
  | ChatResponse_Aborted string
  | ChatResponse_Unset

subsection \<open>The backend stream\<close>

text \<open>
  \<^verbatim>\<open>llmpb.LLMService_ChatClient\<close> is the gRPC stream, an interface with \<^verbatim>\<open>Send\<close>,
  \<^verbatim>\<open>Recv\<close> and \<^verbatim>\<open>CloseSend\<close>. The model is a scripted stream: \<open>inbox\<close> lists what the
  coming calls of \<^verbatim>\<open>Recv\<close> return, in order; \<open>send_script\<close> lists what the coming calls
  of \<^verbatim>\<open>Send\<close> return (nil once the script is used up); \<open>sent\<close> records every envelope
  handed to \<^verbatim>\<open>Send\<close>, oldest first; \<open>closeSend_calls\<close> counts the calls of
  \<^verbatim>\<open>CloseSend\<close>, which return \<open>closeSend_result\<close>.
\<close>

datatype recv =
    Resp pb_ChatResponse
  | EOF
  | RecvErr error

record ChatClient =
  sent :: "pb_ChatRequest list"
  send_script :: "error option list"
  inbox :: "recv list"
  closeSend_calls :: nat
  closeSend_result :: "error option"

definition stream_Send :: "pb_ChatRequest \<Rightarrow> ChatClient \<Rightarrow> error option \<times> ChatClient" where
  "stream_Send m st =
     (case send_script st of
        [] \<Rightarrow> (None, st\<lparr>sent := sent st @ [m]\<rparr>)
      | r # rs \<Rightarrow> (r, st\<lparr>sent := sent st @ [m], send_script := rs\<rparr>))"

text \<open>
  \<^verbatim>\<open>Recv\<close> blocks until the backend sends something or the stream ends. On a script
  that is used up the backend stays silent and the stream stays open: the call never
  returns, which is the value \<open>None\<close>.
\<close>

definition stream_Recv :: "ChatClient \<Rightarrow> (recv \<times> ChatClient) option" where
  "stream_Recv st =
     (case inbox st of
        [] \<Rightarrow> None
      | r # rs \<Rightarrow> Some (r, st\<lparr>inbox := rs\<rparr>))"

definition stream_CloseSend :: "ChatClient \<Rightarrow> error option \<times> ChatClient" where
  "stream_CloseSend st = (closeSend_result st, st\<lparr>closeSend_calls := Suc (closeSend_calls st)\<rparr>)"

subsection \<open>ChatSession\<close>

text \<open>The field \<^verbatim>\<open>done\<close> is \<open>is_done\<close>; the mutex has no state of its own here.\<close>

record ChatSession =
  stream :: ChatClient
  apiKey :: string
  is_done :: bool

text \<open>
  A \<^verbatim>\<open>StreamCallback\<close> is a Go closure: it may keep state of its own between calls.
  It maps a chunk and its state to its result (\<open>None\<close> is nil) and its next state.
  A nil callback is \<open>None\<close>.
\<close>

type_synonym 'cb StreamCallback = "StreamChunk \<Rightarrow> 'cb \<Rightarrow> error option \<times> 'cb"

text \<open>
  The local variables of one call of \<^verbatim>\<open>Send\<close>: \<open>fullContent\<close> and \<open>completion\<close> as
  in the source, the state of the callback, and \<open>delivered\<close>, the chunks the callback
  has been called with so far, oldest first (kept for the theorems only).
\<close>

record 'cb turn =
  fullContent :: string
  completion :: "CompletionResponse option"
  cb_state :: 'cb
  delivered :: "StreamChunk list"

text \<open>
  The \<^verbatim>\<open>switch\<close> in the receive loop. The result is the error the loop returns with,
  if any, and the updated locals. There is no case for a tool call and none for an
  unset \<^verbatim>\<open>oneof\<close>: the \<^verbatim>\<open>switch\<close> does nothing then.
\<close>

fun on_response :: "'cb StreamCallback option \<Rightarrow> pb_ChatResponse \<Rightarrow> 'cb turn \<Rightarrow> error option \<times> 'cb turn" where
  "on_response callback (ChatResponse_SessionStarted sid provider model) t = (None, t)"
| "on_response callback (ChatResponse_Chunk content index) t =
     (let t1 = t\<lparr>fullContent := fullContent t @ content\<rparr> in
      case callback of
        None \<Rightarrow> (None, t1)
      | Some cb \<Rightarrow>
          (let ch = \<lparr>chunk_Content = content, chunk_Index = index\<rparr>;
               (err, cbs) = cb ch (cb_state t1)
           in (err, t1\<lparr>cb_state := cbs, delivered := delivered t1 @ [ch]\<rparr>)))"
| "on_response callback (ChatResponse_Completion c) t = (None, t\<lparr>completion := Some c\<rparr>)"
| "on_response callback (ChatResponse_Error code message retryable) t =
     (Some (Errorf (''LLM error: '' @ message)), t)"
| "on_response callback (ChatResponse_Aborted reason) t =
     (Some (Errorf (''generation aborted: '' @ reason)), t)"
| "on_response callback (ChatResponse_ToolCall tid name args) t = (None, t)"
| "on_response callback ChatResponse_Unset t = (None, t)"

text \<open>
  The receive loop of \<^verbatim>\<open>Send\<close>. It ends with an error (a \<^verbatim>\<open>return\<close> inside the
  loop) or without one (a \<^verbatim>\<open>break\<close>), and gives the locals and the stream as it leaves
  them; \<open>None\<close> when a \<^verbatim>\<open>Recv\<close> never returns.
\<close>

function recv_loop ::
  "'cb StreamCallback option \<Rightarrow> ChatClient \<Rightarrow> 'cb turn \<Rightarrow> (error option \<times> 'cb turn \<times> ChatClient) option" where
  "recv_loop callback st t =
     (case stream_Recv st of
        None \<Rightarrow> None
      | Some (r, st') \<Rightarrow>
          (case r of
             EOF \<Rightarrow> Some (None, t, st')
           | RecvErr err \<Rightarrow> Some (Some (Wrapf ''stream receive error: '' err), t, st')
           | Resp resp \<Rightarrow>
               (case on_response callback resp t of
                  (Some err, t') \<Rightarrow> Some (Some err, t', st')
                | (None, t') \<Rightarrow>
                    if completion t' \<noteq> None then Some (None, t', st')
                    else recv_loop callback st' t')))"
  by pat_completeness auto
termination
  by (relation "measure (\<lambda>(callback, st, t). length (inbox st))")
     (auto simp: stream_Recv_def split: list.splits)

declare recv_loop.simps [simp del]

text \<open>The code after the loop: the response built from the locals.\<close>

definition response_of :: "'cb turn \<Rightarrow> ChatResponse" where
  "response_of t =
     (case completion t of
        None \<Rightarrow>
          \<lparr>resp_Content = fullContent t, resp_Model = [], resp_InputTokens = 0,
           resp_OutputTokens = 0, resp_CostUSD = 0, resp_LatencyMs = 0, resp_StopReason = []\<rparr>
      | Some c \<Rightarrow>
          \<lparr>resp_Content = FullContent c, resp_Model = [], resp_InputTokens = InputTokens c,
           resp_OutputTokens = OutputTokens c, resp_CostUSD = CostUsd c,
           resp_LatencyMs = LatencyMs c, resp_StopReason = StopReason c\<rparr>)"

text \<open>
  What a call of \<^verbatim>\<open>Send\<close> leaves behind: the pair it returns (an error, or a
  response), the session, the state of the callback and the chunks delivered to it.
\<close>

record 'cb sent_turn =
  returned :: "error + ChatResponse"
  session :: ChatSession
  callback_state :: 'cb
  chunks_delivered :: "StreamChunk list"

text \<open>
  \<^verbatim>\<open>Send\<close>. The context argument is not used by the source. \<open>cb0\<close> is the state of
  the callback before the call. \<open>None\<close> when the call never returns.
\<close>

definition Send :: "string \<Rightarrow> 'cb StreamCallback option \<Rightarrow> 'cb \<Rightarrow> ChatSession \<Rightarrow> 'cb sent_turn option" where
  "Send content callback cb0 s =
     (if is_done s then
        Some \<lparr>returned = Inl (Errorf ''session is closed''), session = s,
              callback_state = cb0, chunks_delivered = []\<rparr>
      else
        case stream_Send (ChatRequest_Message content) (stream s) of
          (Some err, st) \<Rightarrow>
            Some \<lparr>returned = Inl (Wrapf ''failed to send message: '' err),
                  session = s\<lparr>stream := st\<rparr>, callback_state = cb0, chunks_delivered = []\<rparr>
        | (None, st) \<Rightarrow>
            (case recv_loop callback st
                    \<lparr>fullContent = [], completion = None, cb_state = cb0, delivered = []\<rparr> of
               None \<Rightarrow> None
             | Some (Some err, t, st') \<Rightarrow>
                 Some \<lparr>returned = Inl err, session = s\<lparr>stream := st'\<rparr>,
                       callback_state = cb_state t, chunks_delivered = delivered t\<rparr>
             | Some (None, t, st') \<Rightarrow>
                 Some \<lparr>returned = Inr (response_of t), session = s\<lparr>stream := st'\<rparr>,
                       callback_state = cb_state t, chunks_delivered = delivered t\<rparr>))"

definition Abort :: "string \<Rightarrow> ChatSession \<Rightarrow> error option \<times> ChatSession" where
  "Abort reason s =
     (case stream_Send (ChatRequest_Abort reason) (stream s) of
        (err, st) \<Rightarrow> (err, s\<lparr>stream := st\<rparr>))"

definition Close :: "ChatSession \<Rightarrow> error option \<times> ChatSession" where
  "Close s =
     (let s1 = s\<lparr>is_done := True\<rparr> in
      case stream_CloseSend (stream s1) of
        (err, st) \<Rightarrow> (err, s1\<lparr>stream := st\<rparr>))"

subsection \<open>Formatting\<close>

text \<open>\<^verbatim>\<open>err.Error()\<close>: the text of an error.\<close>

fun Error :: "error \<Rightarrow> string" where
  "Error (Errorf text) = text"
| "Error (Wrapf prefix err) = prefix @ Error err"

text \<open>The verb \<^verbatim>\<open>%d\<close> of \<^verbatim>\<open>fmt\<close>: an integer in decimal.\<close>

fun digits :: "nat \<Rightarrow> string" where
  "digits n =
     (if n < 10 then [''0123456789'' ! n]
      else digits (n div 10) @ [''0123456789'' ! (n mod 10)])"

declare digits.simps [simp del]

definition fmt_d :: "int \<Rightarrow> string" where
  "fmt_d i = (if i < 0 then CHR ''-'' # digits (nat (- i)) else digits (nat i))"

subsection \<open>LLMClient\<close>

text \<open>
  A \<^verbatim>\<open>grpc.ClientConn\<close>: the address it was made for and whether it uses TLS. The
  service client \<^verbatim>\<open>llmpb.LLMServiceClient\<close> is a handle on such a connection.
\<close>

record ClientConn =
  target :: string
  tls :: bool

record llmConfigResponse =
  Available :: bool
  GRPCPort :: int
  DefaultProvider :: string
  ConfiguredProviders :: "string list"

text \<open>
  The fields of \<^verbatim>\<open>LLMClient\<close>, its \<^verbatim>\<open>apiKey\<close> as \<open>llm_apiKey\<close>. The HTTP client
  belongs to the world below.
\<close>

record LLMClient =
  llm_apiKey :: string
  baseURL :: string
  useTLS :: bool
  grpcAddr :: string
  conn :: "ClientConn option"
  client :: "ClientConn option"

text \<open>
  What is outside the process. \<open>NewRequest_error\<close> is the error with which
  \<^verbatim>\<open>http.NewRequestWithContext\<close> refuses a URL, if it does. The \<open>n\<close>-th request to the config endpoint (counted
  from 0) is answered by \<open>config_reply n\<close>: a transport error, or a status code, the
  body and what decoding the body as JSON gives. \<open>url_Hostname\<close> is \<^verbatim>\<open>url.Parse\<close>
  followed by \<^verbatim>\<open>Hostname\<close>. The \<open>n\<close>-th call of \<^verbatim>\<open>grpc.NewClient\<close> fails with
  \<open>NewClient_reply n\<close> if that is an error; \<open>conns\<close> lists the connections made so far.
  The \<open>n\<close>-th call of the service method \<^verbatim>\<open>Chat\<close> gives \<open>Chat_reply n\<close>, an error or
  a fresh stream. The counters say how many of each have been made.
\<close>

record http_response =
  StatusCode :: nat
  Body :: string
  Decoded :: "error + llmConfigResponse"

record world =
  NewRequest_error :: "string \<Rightarrow> error option"
  config_reply :: "nat \<Rightarrow> error + http_response"
  config_requests :: nat
  url_Hostname :: "string \<Rightarrow> error + string"
  NewClient_reply :: "nat \<Rightarrow> error option"
  NewClient_calls :: nat
  conns :: "ClientConn list"
  Chat_reply :: "nat \<Rightarrow> error + ChatClient"
  Chat_calls :: nat

text \<open>\<^verbatim>\<open>fetchConfig\<close>. The context it is given is not part of the model.\<close>

definition fetchConfig :: "LLMClient \<Rightarrow> world \<Rightarrow> (error + llmConfigResponse) \<times> world" where
  "fetchConfig c w =
     (if baseURL c = [] then (Inl (Errorf ''baseURL is required for auto-discovery''), w)
      else
        case NewRequest_error w (baseURL c @ ''/sdk/v1/llm/config'') of
          Some err \<Rightarrow> (Inl (Wrapf ''failed to create config request: '' err), w)
        | None \<Rightarrow>
            (let w1 = w\<lparr>config_requests := Suc (config_requests w)\<rparr> in
             case config_reply w (config_requests w) of
               Inl err \<Rightarrow> (Inl (Wrapf ''failed to fetch LLM config: '' err), w1)
             | Inr resp \<Rightarrow>
                 if StatusCode resp \<noteq> 200 then
                   (Inl (Errorf (''config request failed with status ''
                                 @ fmt_d (int (StatusCode resp)) @ '': '' @ Body resp)), w1)
                 else
                   (case Decoded resp of
                      Inl err \<Rightarrow> (Inl (Wrapf ''failed to decode config response: '' err), w1)
                    | Inr config \<Rightarrow> (Inr config, w1))))"

text \<open>\<^verbatim>\<open>grpc.NewClient\<close> with the credentials chosen from \<open>useTLS\<close>.\<close>

definition grpc_NewClient :: "string \<Rightarrow> bool \<Rightarrow> world \<Rightarrow> (error + ClientConn) \<times> world" where
  "grpc_NewClient addr secure w =
     (let w1 = w\<lparr>NewClient_calls := Suc (NewClient_calls w)\<rparr> in
      case NewClient_reply w (NewClient_calls w) of
        Some err \<Rightarrow> (Inl err, w1)
      | None \<Rightarrow>
          (let cn = \<lparr>target = addr, tls = secure\<rparr>
           in (Inr cn, w1\<lparr>conns := conns w1 @ [cn]\<rparr>)))"

text \<open>\<^verbatim>\<open>connect\<close>: the error it returns (\<open>None\<close> is nil), the client and the world.\<close>

definition connect :: "LLMClient \<Rightarrow> world \<Rightarrow> error option \<times> LLMClient \<times> world" where
  "connect c w =
     (if conn c \<noteq> None then (None, c, w)
      else
        let discovered =
          (if grpcAddr c = [] then
             (case fetchConfig c w of
                (Inl err, w1) \<Rightarrow>
                  (Inl (Wrapf ''failed to auto-discover gRPC address: '' err), c, w1)
              | (Inr config, w1) \<Rightarrow>
                  if \<not> Available config then
                    (Inl (Errorf ''LLM service is not available for this organization''), c, w1)
                  else
                    (case url_Hostname w1 (baseURL c) of
                       Inl err \<Rightarrow> (Inl (Wrapf ''failed to parse baseURL: '' err), c, w1)
                     | Inr host \<Rightarrow>
                         (let addr = host @ '':'' @ fmt_d (GRPCPort config)
                          in (Inr addr, c\<lparr>grpcAddr := addr\<rparr>, w1))))
           else (Inr (grpcAddr c), c, w))
        in
        case discovered of
          (Inl err, c1, w1) \<Rightarrow> (Some err, c1, w1)
        | (Inr addr, c1, w1) \<Rightarrow>
            (case grpc_NewClient addr (useTLS c1) w1 of
               (Inl err, w2) \<Rightarrow>
                 (Some (Wrapf (''failed to connect to LLM server at '' @ addr @ '': '') err), c1, w2)
             | (Inr cn, w2) \<Rightarrow> (None, c1\<lparr>conn := Some cn, client := Some cn\<rparr>, w2)))"

text \<open>The service method \<^verbatim>\<open>Chat\<close> of the client: it opens a stream.\<close>

definition client_Chat :: "world \<Rightarrow> (error + ChatClient) \<times> world" where
  "client_Chat w = (Chat_reply w (Chat_calls w), w\<lparr>Chat_calls := Suc (Chat_calls w)\<rparr>)"

text \<open>The loop that converts the messages of a request to wire messages.\<close>

definition convert_messages :: "ChatMessage list \<Rightarrow> pb_Message list" where
  "convert_messages msgs = map (\<lambda>msg. \<lparr>pb_Role = Role msg, pb_Content = Content msg\<rparr>) msgs"

definition NewChatSession ::
  "ChatRequest \<Rightarrow> LLMClient \<Rightarrow> world \<Rightarrow> (error + ChatSession) \<times> LLMClient \<times> world" where
  "NewChatSession req c w =
     (case connect c w of
        (Some err, c1, w1) \<Rightarrow> (Inl err, c1, w1)
      | (None, c1, w1) \<Rightarrow>
          (case client_Chat w1 of
             (Inl err, w2) \<Rightarrow> (Inl (Wrapf ''failed to start chat session: '' err), c1, w2)
           | (Inr st, w2) \<Rightarrow>
               (let messages = convert_messages (Messages req) in
                case stream_Send
                       (ChatRequest_Start
                          \<lparr>start_ApiKey = llm_apiKey c1, start_SystemPrompt = SystemPrompt req,
                           start_Model = Model req, start_MaxTokens = MaxTokens req,
                           start_Temperature = Temperature req, start_Messages = messages\<rparr>) st of
                  (Some err, st1) \<Rightarrow> (Inl (Wrapf ''failed to send start request: '' err), c1, w2)
                | (None, st1) \<Rightarrow>
                    (Inr \<lparr>stream = st1, apiKey = llm_apiKey c1, is_done = False\<rparr>, c1, w2))))"

text \<open>
  What a call of \<^verbatim>\<open>ChatStream\<close> leaves behind: the pair it returns, the session it
  made (if it made one) as the deferred \<^verbatim>\<open>Close\<close> leaves it, the state of the callback,
  the chunks delivered to it, the client and the world.
\<close>

record 'cb streamed =
  cs_returned :: "error + ChatResponse"
  cs_session :: "ChatSession option"
  cs_callback_state :: 'cb
  cs_chunks_delivered :: "StreamChunk list"
  cs_client :: LLMClient
  cs_world :: world

text \<open>
  \<^verbatim>\<open>ChatStream\<close>. The request handed to \<^verbatim>\<open>NewChatSession\<close> is built from four
  fields of \<open>req\<close>; its \<^verbatim>\<open>Messages\<close> is nil. \<open>None\<close> when the call never returns.
\<close>

definition ChatStream ::
  "ChatRequest \<Rightarrow> 'cb StreamCallback option \<Rightarrow> 'cb \<Rightarrow> LLMClient \<Rightarrow> world \<Rightarrow> 'cb streamed option" where
  "ChatStream req callback cb0 c w =
     (case NewChatSession
             \<lparr>Messages = [], SystemPrompt = SystemPrompt req, Model = Model req,
              MaxTokens = MaxTokens req, Temperature = Temperature req\<rparr> c w of
        (Inl err, c1, w1) \<Rightarrow>
          Some \<lparr>cs_returned = Inl err, cs_session = None, cs_callback_state = cb0,
                cs_chunks_delivered = [], cs_client = c1, cs_world = w1\<rparr>
      | (Inr s, c1, w1) \<Rightarrow>
          if length (Messages req) = 0 then
            Some \<lparr>cs_returned = Inl (Errorf ''at least one message is required''),
                  cs_session = Some (snd (Close s)), cs_callback_state = cb0,
                  cs_chunks_delivered = [], cs_client = c1, cs_world = w1\<rparr>
          else
            let lastMsg = Messages req ! (length (Messages req) - 1) in
            if Role lastMsg \<noteq> ''user'' then
              Some \<lparr>cs_returned = Inl (Errorf ''last message must be from user''),
                    cs_session = Some (snd (Close s)), cs_callback_state = cb0,
                    cs_chunks_delivered = [], cs_client = c1, cs_world = w1\<rparr>
            else
              (case Send (Content lastMsg) callback cb0 s of
                 None \<Rightarrow> None
               | Some r \<Rightarrow>
                   Some \<lparr>cs_returned = returned r, cs_session = Some (snd (Close (session r))),
                         cs_callback_state = callback_state r,
                         cs_chunks_delivered = chunks_delivered r,
                         cs_client = c1, cs_world = w1\<rparr>))"

subsection \<open>The WebSocket relay\<close>

text \<open>
  The payload of an error message: code, message, retryable flag. The handlers of inbound
  frames write no other payload; the other payloads are written by the forwarding task.
\<close>

datatype ws_data = WSErrorResponse string string bool

record WSStartRequest =
  ws_SystemPrompt :: string
  ws_Model :: string
  ws_MaxTokens :: int32
  ws_Temperature :: float32
  ws_Messages :: "ChatMessage list"

text \<open>
  \<^verbatim>\<open>json.Unmarshal\<close> at its five targets: the envelope \<^verbatim>\<open>WSMessage\<close> (its type and
  its raw data), \<^verbatim>\<open>WSStartRequest\<close>, \<^verbatim>\<open>WSUserMessage\<close> (its content),
  \<^verbatim>\<open>WSAbortRequest\<close> (its reason) and \<^verbatim>\<open>WSToolResult\<close> (id, result, error flag).
  The decoder is the library's; the relay is modelled for any decoder.
\<close>

record json =
  Unmarshal_WSMessage :: "string \<Rightarrow> error + string \<times> string"
  Unmarshal_WSStartRequest :: "string \<Rightarrow> error + WSStartRequest"
  Unmarshal_WSUserMessage :: "string \<Rightarrow> error + string"
  Unmarshal_WSAbortRequest :: "string \<Rightarrow> error + string"
  Unmarshal_WSToolResult :: "string \<Rightarrow> error + string \<times> string \<times> bool"

text \<open>
  \<^verbatim>\<open>wsSession\<close>. The socket \<^verbatim>\<open>conn\<close> is \<open>written\<close>, the messages handed to
  \<^verbatim>\<open>WriteMessage\<close> so far (type and payload), oldest first; the relay ignores what
  \<^verbatim>\<open>WriteMessage\<close> returns, and marshalling an error payload cannot fail. The stream
  is \<open>ws_stream\<close>, \<open>None\<close> while it is nil; where the source calls a method of the
  stream it has checked that before, and the model reads it with \<open>the\<close>.
  \<open>readers\<close> counts the tasks started with \<^verbatim>\<open>go s.readGRPCResponses()\<close>; what such a
  task does is not part of the model.
\<close>

record wsSession =
  written :: "(string \<times> ws_data) list"
  llm :: LLMClient
  ws_stream :: "ChatClient option"
  started :: bool
  readers :: nat

definition send :: "string \<Rightarrow> ws_data \<Rightarrow> wsSession \<Rightarrow> wsSession" where
  "send msgType data s = s\<lparr>written := written s @ [(msgType, data)]\<rparr>"

definition sendError :: "string \<Rightarrow> string \<Rightarrow> bool \<Rightarrow> wsSession \<Rightarrow> wsSession" where
  "sendError code message retryable s = send ''error'' (WSErrorResponse code message retryable) s"

definition handleStart :: "json \<Rightarrow> string \<Rightarrow> wsSession \<Rightarrow> world \<Rightarrow> wsSession \<times> world" where
  "handleStart J data s w =
     (if started s then (sendError ''already_started'' ''Session already started'' False s, w)
      else
        case Unmarshal_WSStartRequest J data of
          Inl err \<Rightarrow> (sendError ''invalid_data'' ''Invalid start request'' False s, w)
        | Inr req \<Rightarrow>
            (case connect (llm s) w of
               (Some err, c1, w1) \<Rightarrow>
                 (sendError ''connection_failed'' (Error err) True (s\<lparr>llm := c1\<rparr>), w1)
             | (None, c1, w1) \<Rightarrow>
                 (case client_Chat w1 of
                    (Inl err, w2) \<Rightarrow>
                      (sendError ''stream_failed'' (Error err) True (s\<lparr>llm := c1\<rparr>), w2)
                  | (Inr st, w2) \<Rightarrow>
                      (let messages = convert_messages (ws_Messages req) in
                       case stream_Send
                              (ChatRequest_Start
                                 \<lparr>start_ApiKey = llm_apiKey c1,
                                  start_SystemPrompt = ws_SystemPrompt req,
                                  start_Model = ws_Model req, start_MaxTokens = ws_MaxTokens req,
                                  start_Temperature = ws_Temperature req,
                                  start_Messages = messages\<rparr>) st of
                         (Some err, st1) \<Rightarrow>
                           (sendError ''start_failed'' (Error err) True
                              (s\<lparr>llm := c1, ws_stream := Some st1\<rparr>), w2)
                       | (None, st1) \<Rightarrow>
                           (s\<lparr>llm := c1, ws_stream := Some st1, started := True,
                              readers := Suc (readers s)\<rparr>, w2)))))"

definition handleMessage :: "json \<Rightarrow> string \<Rightarrow> wsSession \<Rightarrow> wsSession" where
  "handleMessage J data s =
     (if \<not> started s \<or> ws_stream s = None then
        sendError ''not_started'' ''Session not started'' False s
      else
        case Unmarshal_WSUserMessage J data of
          Inl err \<Rightarrow> sendError ''invalid_data'' ''Invalid message'' False s
        | Inr content \<Rightarrow>
            (case stream_Send (ChatRequest_Message content) (the (ws_stream s)) of
               (Some err, st1) \<Rightarrow>
                 sendError ''send_failed'' (Error err) True (s\<lparr>ws_stream := Some st1\<rparr>)
             | (None, st1) \<Rightarrow> s\<lparr>ws_stream := Some st1\<rparr>))"

text \<open>A payload that does not decode leaves the reason empty; what the stream returns is dropped.\<close>

definition handleAbort :: "json \<Rightarrow> string \<Rightarrow> wsSession \<Rightarrow> wsSession" where
  "handleAbort J data s =
     (if \<not> started s \<or> ws_stream s = None then s
      else
        let reason = (case Unmarshal_WSAbortRequest J data of Inl err \<Rightarrow> [] | Inr r \<Rightarrow> r)
        in s\<lparr>ws_stream := Some (snd (stream_Send (ChatRequest_Abort reason) (the (ws_stream s))))\<rparr>)"

definition handleToolResult :: "json \<Rightarrow> string \<Rightarrow> wsSession \<Rightarrow> wsSession" where
  "handleToolResult J data s =
     (if \<not> started s \<or> ws_stream s = None then
        sendError ''not_started'' ''Session not started'' False s
      else
        case Unmarshal_WSToolResult J data of
          Inl err \<Rightarrow> sendError ''invalid_data'' ''Invalid tool result'' False s
        | Inr (tid, result, is_error) \<Rightarrow>
            (case stream_Send (ChatRequest_ToolResult tid result is_error) (the (ws_stream s)) of
               (Some err, st1) \<Rightarrow>
                 sendError ''send_failed'' (Error err) True (s\<lparr>ws_stream := Some st1\<rparr>)
             | (None, st1) \<Rightarrow> s\<lparr>ws_stream := Some st1\<rparr>))"

text \<open>One turn of the loop of \<^verbatim>\<open>run\<close>, for a frame that \<^verbatim>\<open>ReadMessage\<close> returned.\<close>

definition run_frame :: "json \<Rightarrow> string \<Rightarrow> wsSession \<Rightarrow> world \<Rightarrow> wsSession \<times> world" where
  "run_frame J message s w =
     (case Unmarshal_WSMessage J message of
        Inl err \<Rightarrow> (sendError ''invalid_json'' ''Invalid JSON message'' False s, w)
      | Inr (msgType, data) \<Rightarrow>
          if msgType = ''start'' then handleStart J data s w
          else if msgType = ''message'' then (handleMessage J data s, w)
          else if msgType = ''abort'' then (handleAbort J data s, w)
          else if msgType = ''tool_result'' then (handleToolResult J data s, w)
          else (sendError ''unknown_type'' (''Unknown message type: '' @ msgType) False s, w))"

text \<open>\<^verbatim>\<open>run\<close> on the frames read before \<^verbatim>\<open>ReadMessage\<close> fails.\<close>

fun run :: "json \<Rightarrow> string list \<Rightarrow> wsSession \<Rightarrow> world \<Rightarrow> wsSession \<times> world" where
  "run J [] s w = (s, w)"
| "run J (message # messages) s w = (case run_frame J message s w of (s1, w1) \<Rightarrow> run J messages s1 w1)"

text \<open>The session that \<^verbatim>\<open>HandleChatWebSocket\<close> makes for a new socket.\<close>

definition new_wsSession :: "LLMClient \<Rightarrow> wsSession" where
  "new_wsSession c = \<lparr>written = [], llm = c, ws_stream = None, started = False, readers = 0\<rparr>"

subsection \<open>Vocabulary of the theorems about Send\<close>

text \<open>
  An event is quiet when the \<^verbatim>\<open>switch\<close> neither returns nor records a completion
  for it: an acknowledgement, a chunk, a tool call, an unset \<^verbatim>\<open>oneof\<close>.
\<close>

fun quiet :: "pb_ChatResponse \<Rightarrow> bool" where
  "quiet (ChatResponse_SessionStarted sid provider model) = True"
| "quiet (ChatResponse_Chunk content index) = True"
| "quiet (ChatResponse_ToolCall tid name args) = True"
| "quiet ChatResponse_Unset = True"
| "quiet (ChatResponse_Completion c) = False"
| "quiet (ChatResponse_Error code message retryable) = False"
| "quiet (ChatResponse_Aborted reason) = False"

text \<open>The chunks among some events, in order, as the callback receives them.\<close>

fun chunks_of :: "pb_ChatResponse list \<Rightarrow> StreamChunk list" where
  "chunks_of [] = []"
| "chunks_of (ChatResponse_Chunk content index # rs) =
     \<lparr>chunk_Content = content, chunk_Index = index\<rparr> # chunks_of rs"
| "chunks_of (r # rs) = chunks_of rs"

text \<open>
  \<open>accepts callback c chs\<close>: called on the chunks \<open>chs\<close> one after the other, from
  the state \<open>c\<close>, the callback returns nil every time (a nil callback is never called).
  \<open>state_after\<close> is the state of the callback after these calls, and \<open>delivered_to\<close>
  the chunks it has been called with.
\<close>

fun accepts :: "'cb StreamCallback option \<Rightarrow> 'cb \<Rightarrow> StreamChunk list \<Rightarrow> bool" where
  "accepts None c chs = True"
| "accepts (Some cb) c [] = True"
| "accepts (Some cb) c (ch # chs) =
     (case cb ch c of (None, c') \<Rightarrow> accepts (Some cb) c' chs | (Some e, c') \<Rightarrow> False)"

fun state_after :: "'cb StreamCallback option \<Rightarrow> 'cb \<Rightarrow> StreamChunk list \<Rightarrow> 'cb" where
  "state_after None c chs = c"
| "state_after (Some cb) c [] = c"
| "state_after (Some cb) c (ch # chs) = state_after (Some cb) (snd (cb ch c)) chs"

definition delivered_to :: "'cb StreamCallback option \<Rightarrow> StreamChunk list \<Rightarrow> StreamChunk list" where
  "delivered_to callback chs = (case callback of None \<Rightarrow> [] | Some cb \<Rightarrow> chs)"

text \<open>The locals of the loop after quiet events that the callback accepted.\<close>

definition after_quiet :: "'cb StreamCallback option \<Rightarrow> pb_ChatResponse list \<Rightarrow> 'cb turn \<Rightarrow> 'cb turn" where
  "after_quiet callback pre t =
     t\<lparr>fullContent := fullContent t @ concat (map chunk_Content (chunks_of pre)),
       cb_state := state_after callback (cb_state t) (chunks_of pre),
       delivered := delivered t @ delivered_to callback (chunks_of pre)\<rparr>"

text \<open>The locals when the loop is entered.\<close>

definition turn0 :: "'cb \<Rightarrow> 'cb turn" where
  "turn0 cb0 = \<lparr>fullContent = [], completion = None, cb_state = cb0, delivered = []\<rparr>"

text \<open>The next \<^verbatim>\<open>Send\<close> on the stream returns nil.\<close>

definition send_ok :: "ChatClient \<Rightarrow> bool" where
  "send_ok st = (case send_script st of [] \<Rightarrow> True | r # rs \<Rightarrow> r = None)"

text \<open>One more call of \<^verbatim>\<open>connect\<close>, on a client and a world.\<close>

definition connect_again :: "LLMClient \<times> world \<Rightarrow> LLMClient \<times> world" where
  "connect_again cw = snd (connect (fst cw) (snd cw))"

text \<open>The request that \<^verbatim>\<open>ChatStream\<close> hands to \<^verbatim>\<open>NewChatSession\<close>.\<close>

definition bare_request :: "ChatRequest \<Rightarrow> ChatRequest" where
  "bare_request req =
     \<lparr>Messages = [], SystemPrompt = SystemPrompt req, Model = Model req,
      MaxTokens = MaxTokens req, Temperature = Temperature req\<rparr>"

text \<open>
  What holds of a relay session between two frames: once started it has a stream and
  one forwarding task; before that it has no forwarding task.
\<close>

definition relay_inv :: "wsSession \<Rightarrow> bool" where
  "relay_inv s = (if started s then ws_stream s \<noteq> None \<and> readers s = 1 else readers s = 0)"

subsection \<open>Concrete inputs\<close>

text \<open>
  An open session on a fresh stream whose backend answers with the given script, a
  callback that counts its calls, one that fails from its \<open>k\<close>-th call on (counted
  from 0), and a completion.
\<close>

definition session_on :: "recv list \<Rightarrow> ChatSession" where
  "session_on script =
     \<lparr>stream = \<lparr>sent = [], send_script = [], inbox = script, closeSend_calls = 0,
                closeSend_result = None\<rparr>,
      apiKey = ''key'', is_done = False\<rparr>"

definition count_chunks :: "nat StreamCallback" where
  "count_chunks ch n = (None, Suc n)"

definition fail_from :: "nat \<Rightarrow> nat StreamCallback" where
  "fail_from k ch n = (if k \<le> n then Some (Errorf ''callback failed'') else None, Suc n)"

definition completion1 :: CompletionResponse where
  "completion1 = \<lparr>FullContent = ''Hello, world'', StopReason = ''end_turn'', InputTokens = 12,
                   OutputTokens = 3, CostUsd = 7, LatencyMs = 250\<rparr>"

text \<open>
  A world where everything works: the config endpoint announces port 9889, every URL has
  the host \<^verbatim>\<open>levee.example\<close>, connections are made, and every stream opened is fresh
  and answers with the given script. A client that has not connected yet, and the same
  client once it has. A request with a history of three messages.
\<close>

definition world1 :: "recv list \<Rightarrow> world" where
  "world1 script =
     \<lparr>NewRequest_error = (\<lambda>u. None),
      config_reply = (\<lambda>n. Inr \<lparr>StatusCode = 200, Body = [],
                                Decoded = Inr \<lparr>Available = True, GRPCPort = 9889,
                                               DefaultProvider = ''anthropic'',
                                               ConfiguredProviders = [''anthropic'']\<rparr>\<rparr>),
      config_requests = 0,
      url_Hostname = (\<lambda>u. Inr ''levee.example''),
      NewClient_reply = (\<lambda>n. None),
      NewClient_calls = 0,
      conns = [],
      Chat_reply = (\<lambda>n. Inr \<lparr>sent = [], send_script = [], inbox = script,
                              closeSend_calls = 0, closeSend_result = None\<rparr>),
      Chat_calls = 0\<rparr>"

definition client1 :: LLMClient where
  "client1 = \<lparr>llm_apiKey = ''key'', baseURL = ''https://levee.example'', useTLS = True,
              grpcAddr = [], conn = None, client = None\<rparr>"

definition client1_connected :: LLMClient where
  "client1_connected =
     client1\<lparr>grpcAddr := ''levee.example:9889'',
             conn := Some \<lparr>target = ''levee.example:9889'', tls = True\<rparr>,
             client := Some \<lparr>target = ''levee.example:9889'', tls = True\<rparr>\<rparr>"

definition world1_connected :: "recv list \<Rightarrow> world" where
  "world1_connected script =
     (world1 script)\<lparr>config_requests := 1, NewClient_calls := 1,
                     conns := [\<lparr>target = ''levee.example:9889'', tls = True\<rparr>]\<rparr>"

definition request1 :: ChatRequest where
  "request1 =
     \<lparr>Messages = [\<lparr>Role = ''user'', Content = ''My name is Ada''\<rparr>,
                  \<lparr>Role = ''assistant'', Content = ''Hello Ada''\<rparr>,
                  \<lparr>Role = ''user'', Content = ''What is my name?''\<rparr>],
      SystemPrompt = ''Be brief'', Model = ''sonnet'', MaxTokens = 1024, Temperature = 1060320051\<rparr>"

text \<open>
  A toy decoder for the concrete inputs: a frame is its type, a space, its data, and
  the data is the payload itself.
\<close>

definition toy_json :: json where
  "toy_json =
     \<lparr>Unmarshal_WSMessage =
        (\<lambda>m. if CHR '' '' \<in> set m
              then Inr (takeWhile (\<lambda>ch. ch \<noteq> CHR '' '') m, tl (dropWhile (\<lambda>ch. ch \<noteq> CHR '' '') m))
              else Inl (Errorf ''unexpected end of JSON input'')),
      Unmarshal_WSStartRequest =
        (\<lambda>d. Inr \<lparr>ws_SystemPrompt = d, ws_Model = ''sonnet'', ws_MaxTokens = 1024,
                   ws_Temperature = 0, ws_Messages = []\<rparr>),
      Unmarshal_WSUserMessage = (\<lambda>d. Inr d),
      Unmarshal_WSAbortRequest = (\<lambda>d. Inr d),
      Unmarshal_WSToolResult = (\<lambda>d. Inr (d, d, False))\<rparr>"

text \<open>
  The relay session after a first start frame \<^verbatim>\<open>start Be brief\<close> in the world above,
  its stream, and the world then.
\<close>

definition stream1 :: ChatClient where
  "stream1 =
     \<lparr>sent = [ChatRequest_Start
                 \<lparr>start_ApiKey = ''key'', start_SystemPrompt = ''Be brief'',
                  start_Model = ''sonnet'', start_MaxTokens = 1024, start_Temperature = 0,
                  start_Messages = []\<rparr>],
      send_script = [], inbox = [], closeSend_calls = 0, closeSend_result = None\<rparr>"

definition started1 :: wsSession where
  "started1 =
     \<lparr>written = [], llm = client1_connected, ws_stream = Some stream1, started = True, readers = 1\<rparr>"

definition world1_started :: world where
  "world1_started = (world1_connected [])\<lparr>Chat_calls := 1\<rparr>"

section \<open>The receive loop\<close>

lemma recv_loop_Cons:
  "inbox st = r # rest \<Longrightarrow>
   recv_loop callback st t =
     (case r of
        EOF \<Rightarrow> Some (None, t, st\<lparr>inbox := rest\<rparr>)
      | RecvErr err \<Rightarrow> Some (Some (Wrapf ''stream receive error: '' err), t, st\<lparr>inbox := rest\<rparr>)
      | Resp resp \<Rightarrow>
          (case on_response callback resp t of
             (Some err, t') \<Rightarrow> Some (Some err, t', st\<lparr>inbox := rest\<rparr>)
           | (None, t') \<Rightarrow>
               if completion t' \<noteq> None then Some (None, t', st\<lparr>inbox := rest\<rparr>)
               else recv_loop callback (st\<lparr>inbox := rest\<rparr>) t'))"
  by (subst recv_loop.simps) (simp add: stream_Recv_def)

lemma recv_loop_Nil: "inbox st = [] \<Longrightarrow> recv_loop callback st t = None"
  by (subst recv_loop.simps) (simp add: stream_Recv_def)

lemma after_quiet_Nil: "after_quiet callback [] t = t"
  by (cases callback) (simp_all add: after_quiet_def delivered_to_def)

lemma on_response_quiet:
  "quiet r \<Longrightarrow> accepts callback (cb_state t) (chunks_of [r]) \<Longrightarrow>
   on_response callback r t = (None, after_quiet callback [r] t)"
  by (cases r; cases callback)
     (auto simp: after_quiet_def delivered_to_def Let_def split: prod.splits option.splits)

lemma after_quiet_Cons:
  "after_quiet callback (r # pre) t = after_quiet callback pre (after_quiet callback [r] t)"
  by (cases r; cases callback) (auto simp: after_quiet_def delivered_to_def)

lemma accepts_Cons:
  "accepts callback c (chunks_of (r # pre)) \<Longrightarrow>
   accepts callback c (chunks_of [r]) \<and>
   accepts callback (state_after callback c (chunks_of [r])) (chunks_of pre)"
  by (cases r; cases callback) (auto split: prod.splits option.splits)

text \<open>Quiet events that the callback accepts are consumed and the loop goes on.\<close>

lemma recv_loop_quiet:
  "list_all quiet pre \<Longrightarrow> accepts callback (cb_state t) (chunks_of pre) \<Longrightarrow>
   completion t = None \<Longrightarrow> inbox st = map Resp pre @ rest \<Longrightarrow>
   recv_loop callback st t = recv_loop callback (st\<lparr>inbox := rest\<rparr>) (after_quiet callback pre t)"
proof (induction pre arbitrary: st t)
  case Nil
  have "st\<lparr>inbox := rest\<rparr> = st" using Nil.prems(4) by (cases st) simp
  moreover have "after_quiet callback [] t = t" by (simp add: after_quiet_Nil)
  ultimately show ?case by simp
next
  case (Cons r pre)
  have a1: "accepts callback (cb_state t) (chunks_of [r])"
    using accepts_Cons [OF Cons.prems(2)] by simp
  have a2: "accepts callback (state_after callback (cb_state t) (chunks_of [r])) (chunks_of pre)"
    using accepts_Cons [OF Cons.prems(2)] by simp
  from Cons.prems(1) have q: "quiet r" and qs: "list_all quiet pre" by simp_all
  let ?t = "after_quiet callback [r] t"
  let ?st = "st\<lparr>inbox := map Resp pre @ rest\<rparr>"
  have step: "on_response callback r t = (None, ?t)"
    using q a1 by (rule on_response_quiet)
  have c: "completion ?t = None" using Cons.prems(3) by (simp add: after_quiet_def)
  have s: "cb_state ?t = state_after callback (cb_state t) (chunks_of [r])"
    by (simp add: after_quiet_def)
  have "recv_loop callback st t = recv_loop callback ?st ?t"
    using recv_loop_Cons [of st "Resp r" "map Resp pre @ rest" callback t] Cons.prems(4) step c
    by simp
  also have "\<dots> = recv_loop callback (?st\<lparr>inbox := rest\<rparr>) (after_quiet callback pre ?t)"
    using Cons.IH [of ?t ?st] qs a2 c s by simp
  finally show ?case by (simp add: after_quiet_Cons [of callback r pre t])
qed

text \<open>What the loop does with the first event after such a prefix.\<close>

lemma recv_loop_quiet_then:
  assumes "list_all quiet pre" and "accepts callback cb0 (chunks_of pre)"
    and "inbox st = map Resp pre @ r # rest"
  shows "recv_loop callback st (turn0 cb0) =
     (case r of
        EOF \<Rightarrow> Some (None, after_quiet callback pre (turn0 cb0), st\<lparr>inbox := rest\<rparr>)
      | RecvErr err \<Rightarrow>
          Some (Some (Wrapf ''stream receive error: '' err), after_quiet callback pre (turn0 cb0),
                st\<lparr>inbox := rest\<rparr>)
      | Resp resp \<Rightarrow>
          (case on_response callback resp (after_quiet callback pre (turn0 cb0)) of
             (Some err, t') \<Rightarrow> Some (Some err, t', st\<lparr>inbox := rest\<rparr>)
           | (None, t') \<Rightarrow>
               if completion t' \<noteq> None then Some (None, t', st\<lparr>inbox := rest\<rparr>)
               else recv_loop callback (st\<lparr>inbox := rest\<rparr>) t'))"
proof -
  let ?t = "after_quiet callback pre (turn0 cb0)"
  let ?st = "st\<lparr>inbox := r # rest\<rparr>"
  have "recv_loop callback st (turn0 cb0) = recv_loop callback ?st ?t"
    using recv_loop_quiet [of pre callback "turn0 cb0" st "r # rest"] assms
    by (simp add: turn0_def)
  moreover have i: "inbox ?st = r # rest" by simp
  moreover have e: "?st\<lparr>inbox := rest\<rparr> = st\<lparr>inbox := rest\<rparr>" by simp
  ultimately show ?thesis
    using recv_loop_Cons [OF i, of callback ?t, unfolded e] by simp
qed

lemma after_quiet_turn0:
  "after_quiet callback pre (turn0 cb0) =
     \<lparr>fullContent = concat (map chunk_Content (chunks_of pre)), completion = None,
      cb_state = state_after callback cb0 (chunks_of pre),
      delivered = delivered_to callback (chunks_of pre)\<rparr>"
  by (simp add: after_quiet_def turn0_def)

section \<open>Send\<close>

lemma stream_Send_ok: "send_ok st \<Longrightarrow> fst (stream_Send m st) = None"
  by (auto simp: send_ok_def stream_Send_def split: list.splits)

lemma inbox_stream_Send: "inbox (snd (stream_Send m st)) = inbox st"
  by (simp add: stream_Send_def split: list.splits)

lemma sent_stream_Send: "sent (snd (stream_Send m st)) = sent st @ [m]"
  by (simp add: stream_Send_def split: list.splits)

text \<open>On an open session whose stream takes the user message, Send is its receive loop.\<close>

lemma Send_open:
  assumes "\<not> is_done s" and "send_ok (stream s)"
  shows "Send content callback cb0 s =
     (case recv_loop callback (snd (stream_Send (ChatRequest_Message content) (stream s))) (turn0 cb0) of
        None \<Rightarrow> None
      | Some (Some err, t, st') \<Rightarrow>
          Some \<lparr>returned = Inl err, session = s\<lparr>stream := st'\<rparr>,
                callback_state = cb_state t, chunks_delivered = delivered t\<rparr>
      | Some (None, t, st') \<Rightarrow>
          Some \<lparr>returned = Inr (response_of t), session = s\<lparr>stream := st'\<rparr>,
                callback_state = cb_state t, chunks_delivered = delivered t\<rparr>)"
  using assms stream_Send_ok [OF assms(2), of "ChatRequest_Message content"]
  by (cases "stream_Send (ChatRequest_Message content) (stream s)")
     (simp add: Send_def turn0_def)

text \<open>
  C1, as the code has it. On an open session, a completion that arrives after quiet
  events only (whose chunks the callback accepted) ends the receive loop by itself:
  Send returns the response built from that completion without waiting for the end of
  the stream, the callback has received the chunks that came before the completion and
  nothing else, and whatever the backend sends after the completion (\<open>rest\<close>) is
  left unread on the stream.
\<close>

theorem Send_stops_at_completion:
  assumes "\<not> is_done s" and "send_ok (stream s)"
    and "inbox (stream s) = map Resp pre @ Resp (ChatResponse_Completion c) # rest"
    and "list_all quiet pre" and "accepts callback cb0 (chunks_of pre)"
  shows "Send content callback cb0 s =
     Some \<lparr>returned = Inr \<lparr>resp_Content = FullContent c, resp_Model = [],
                            resp_InputTokens = InputTokens c, resp_OutputTokens = OutputTokens c,
                            resp_CostUSD = CostUsd c, resp_LatencyMs = LatencyMs c,
                            resp_StopReason = StopReason c\<rparr>,
           session = s\<lparr>stream := snd (stream_Send (ChatRequest_Message content) (stream s))\<lparr>inbox := rest\<rparr>\<rparr>,
           callback_state = state_after callback cb0 (chunks_of pre),
           chunks_delivered = delivered_to callback (chunks_of pre)\<rparr>"
proof -
  let ?st = "snd (stream_Send (ChatRequest_Message content) (stream s))"
  have "inbox ?st = map Resp pre @ Resp (ChatResponse_Completion c) # rest"
    using assms(3) by (simp add: inbox_stream_Send)
  then have "recv_loop callback ?st (turn0 cb0) =
      Some (None, (after_quiet callback pre (turn0 cb0))\<lparr>completion := Some c\<rparr>, ?st\<lparr>inbox := rest\<rparr>)"
    using recv_loop_quiet_then [OF assms(4) assms(5), of ?st] by simp
  then show ?thesis
    using Send_open [OF assms(1) assms(2), of content callback cb0]
    by (simp add: after_quiet_turn0 response_of_def)
qed

theorem Send_stops_at_completion_witness:
  "Send ''hi'' (Some count_chunks) 0
     (session_on [Resp (ChatResponse_Chunk ''Hel'' 0), Resp (ChatResponse_Completion completion1),
                  Resp (ChatResponse_Chunk ''late'' 1), EOF]) =
   Some \<lparr>returned = Inr \<lparr>resp_Content = ''Hello, world'', resp_Model = [],
                          resp_InputTokens = 12, resp_OutputTokens = 3,
                          resp_CostUSD = 7, resp_LatencyMs = 250,
                          resp_StopReason = ''end_turn''\<rparr>,
         session = \<lparr>stream = \<lparr>sent = [ChatRequest_Message ''hi''], send_script = [],
                              inbox = [Resp (ChatResponse_Chunk ''late'' 1), EOF],
                              closeSend_calls = 0, closeSend_result = None\<rparr>,
                    apiKey = ''key'', is_done = False\<rparr>,
         callback_state = 1,
         chunks_delivered = [\<lparr>chunk_Content = ''Hel'', chunk_Index = 0\<rparr>]\<rparr>"
  using Send_stops_at_completion
    [of "session_on [Resp (ChatResponse_Chunk ''Hel'' 0), Resp (ChatResponse_Completion completion1),
                  Resp (ChatResponse_Chunk ''late'' 1), EOF]"
        "[ChatResponse_Chunk ''Hel'' 0]" completion1 "[Resp (ChatResponse_Chunk ''late'' 1), EOF]"
        "Some count_chunks" 0 "''hi''"]
  by (simp add: session_on_def send_ok_def count_chunks_def completion1_def stream_Send_def
      delivered_to_def)

text \<open>
  C1 as stated fails: the backend sends a completion, then a trailing chunk, then ends
  the stream. Send returns at the completion: the callback is never called, and the
  trailing chunk and the end of the stream are still unread when Send has returned.
\<close>

theorem Send_completion_counterexample:
  "map_option (\<lambda>r. (chunks_delivered r, inbox (stream (session r))))
     (Send ''hi'' (Some count_chunks) 0
        (session_on [Resp (ChatResponse_Completion completion1),
                     Resp (ChatResponse_Chunk ''late'' 0), EOF])) =
   Some ([], [Resp (ChatResponse_Chunk ''late'' 0), EOF])"
  by (simp add: Send_def session_on_def stream_Send_def recv_loop.simps stream_Recv_def)

text \<open>
  C2, as the code has it. On an open session, an error event that arrives after quiet
  events only (whose chunks the callback accepted) makes Send return at once, however
  many chunks came before it. The error returned is the text \<^verbatim>\<open>LLM error: \<close> followed by
  the message of the event; the code of the event and its retryable flag are not part of it.
\<close>

theorem Send_backend_error:
  assumes "\<not> is_done s" and "send_ok (stream s)"
    and "inbox (stream s) = map Resp pre @ Resp (ChatResponse_Error code message retryable) # rest"
    and "list_all quiet pre" and "accepts callback cb0 (chunks_of pre)"
  shows "Send content callback cb0 s =
     Some \<lparr>returned = Inl (Errorf (''LLM error: '' @ message)),
           session = s\<lparr>stream := snd (stream_Send (ChatRequest_Message content) (stream s))\<lparr>inbox := rest\<rparr>\<rparr>,
           callback_state = state_after callback cb0 (chunks_of pre),
           chunks_delivered = delivered_to callback (chunks_of pre)\<rparr>"
proof -
  let ?st = "snd (stream_Send (ChatRequest_Message content) (stream s))"
  have "inbox ?st = map Resp pre @ Resp (ChatResponse_Error code message retryable) # rest"
    using assms(3) by (simp add: inbox_stream_Send)
  then have "recv_loop callback ?st (turn0 cb0) =
      Some (Some (Errorf (''LLM error: '' @ message)), after_quiet callback pre (turn0 cb0),
            ?st\<lparr>inbox := rest\<rparr>)"
    using recv_loop_quiet_then [OF assms(4) assms(5), of ?st] by simp
  then show ?thesis
    using Send_open [OF assms(1) assms(2), of content callback cb0]
    by (simp add: after_quiet_turn0)
qed

theorem Send_backend_error_witness:
  "map_option returned
     (Send ''hi'' (Some count_chunks) 0
        (session_on [Resp (ChatResponse_Chunk ''Hel'' 0), Resp (ChatResponse_Chunk ''lo'' 1),
                     Resp (ChatResponse_Error ''overloaded'' ''try later'' True)])) =
   Some (Inl (Errorf ''LLM error: try later''))"
  using Send_backend_error
    [of "session_on [Resp (ChatResponse_Chunk ''Hel'' 0), Resp (ChatResponse_Chunk ''lo'' 1),
                     Resp (ChatResponse_Error ''overloaded'' ''try later'' True)]"
        "[ChatResponse_Chunk ''Hel'' 0, ChatResponse_Chunk ''lo'' 1]"
        "''overloaded''" "''try later''" True "[]" "Some count_chunks" 0 "''hi''"]
  by (simp add: session_on_def send_ok_def count_chunks_def)

text \<open>
  C2 as stated fails: two error events with different codes and the same message and
  flag make Send return the same value, so the code cannot be read from what Send returns.
\<close>

theorem Send_error_code_counterexample:
  "Send ''hi'' (Some count_chunks) 0 (session_on [Resp (ChatResponse_Error ''overloaded'' ''failed'' True)]) =
   Send ''hi'' (Some count_chunks) 0 (session_on [Resp (ChatResponse_Error ''invalid_request'' ''failed'' True)])
   \<and> ''overloaded'' \<noteq> ''invalid_request''"
  by (simp add: Send_def session_on_def stream_Send_def recv_loop.simps stream_Recv_def)

text \<open>
  C4. The backend sends a chunk with index 0, a chunk with index 1, a completion, and
  ends the stream. On an open session whose stream takes the user message, with a
  callback that returns nil for both chunks, Send returns; the callback has been called
  exactly twice, with the first chunk and then the second; the response has the
  completion's full content (not the chunks' contents put together) and the
  completion's token counts, cost, latency and stop reason.
\<close>

theorem Send_two_chunks_then_completion:
  assumes "\<not> is_done s" and "send_ok (stream s)"
    and "inbox (stream s) =
           [Resp (ChatResponse_Chunk a 0), Resp (ChatResponse_Chunk b 1),
            Resp (ChatResponse_Completion c), EOF]"
    and "accepts (Some cb) cb0
           [\<lparr>chunk_Content = a, chunk_Index = 0\<rparr>, \<lparr>chunk_Content = b, chunk_Index = 1\<rparr>]"
  shows "\<exists>r. Send content (Some cb) cb0 s = Some r \<and>
           chunks_delivered r =
             [\<lparr>chunk_Content = a, chunk_Index = 0\<rparr>, \<lparr>chunk_Content = b, chunk_Index = 1\<rparr>] \<and>
           returned r =
             Inr \<lparr>resp_Content = FullContent c, resp_Model = [],
                  resp_InputTokens = InputTokens c, resp_OutputTokens = OutputTokens c,
                  resp_CostUSD = CostUsd c, resp_LatencyMs = LatencyMs c,
                  resp_StopReason = StopReason c\<rparr>"
proof -
  let ?st = "snd (stream_Send (ChatRequest_Message content) (stream s))"
  let ?pre = "[ChatResponse_Chunk a 0, ChatResponse_Chunk b 1]"
  have q: "list_all quiet ?pre" by simp
  have a: "accepts (Some cb) cb0 (chunks_of ?pre)" using assms(4) by simp
  have "inbox ?st = map Resp ?pre @ Resp (ChatResponse_Completion c) # [EOF]"
    using assms(3) by (simp add: inbox_stream_Send)
  then have "recv_loop (Some cb) ?st (turn0 cb0) =
      Some (None, (after_quiet (Some cb) ?pre (turn0 cb0))\<lparr>completion := Some c\<rparr>, ?st\<lparr>inbox := [EOF]\<rparr>)"
    using recv_loop_quiet_then [OF q a, of ?st] by simp
  then show ?thesis
    using Send_open [OF assms(1) assms(2), of content "Some cb" cb0]
    by (simp add: after_quiet_turn0 response_of_def delivered_to_def)
qed

theorem Send_two_chunks_then_completion_witness:
  "\<exists>r. Send ''hi'' (Some count_chunks) 0
          (session_on [Resp (ChatResponse_Chunk ''Hello, '' 0), Resp (ChatResponse_Chunk ''wor'' 1),
                       Resp (ChatResponse_Completion completion1), EOF]) = Some r \<and>
        chunks_delivered r =
          [\<lparr>chunk_Content = ''Hello, '', chunk_Index = 0\<rparr>, \<lparr>chunk_Content = ''wor'', chunk_Index = 1\<rparr>] \<and>
        returned r =
          Inr \<lparr>resp_Content = ''Hello, world'', resp_Model = [], resp_InputTokens = 12,
               resp_OutputTokens = 3, resp_CostUSD = 7, resp_LatencyMs = 250,
               resp_StopReason = ''end_turn''\<rparr>"
  using Send_two_chunks_then_completion
    [of "session_on [Resp (ChatResponse_Chunk ''Hello, '' 0), Resp (ChatResponse_Chunk ''wor'' 1),
                       Resp (ChatResponse_Completion completion1), EOF]"
        "''Hello, ''" "''wor''" completion1 count_chunks 0 "''hi''"]
  by (simp add: session_on_def send_ok_def count_chunks_def completion1_def)

text \<open>
  C5, as the code has it. On an open session, when the stream ends after quiet events
  only (no completion, no error event, no abort event; the callback accepted the chunks),
  Send returns a response and no error: its content is the contents of the chunks put
  together in the order of arrival, and every other field has its zero value.
\<close>

theorem Send_EOF_without_completion:
  assumes "\<not> is_done s" and "send_ok (stream s)"
    and "inbox (stream s) = map Resp pre @ EOF # rest"
    and "list_all quiet pre" and "accepts callback cb0 (chunks_of pre)"
  shows "Send content callback cb0 s =
     Some \<lparr>returned = Inr \<lparr>resp_Content = concat (map chunk_Content (chunks_of pre)),
                            resp_Model = [], resp_InputTokens = 0, resp_OutputTokens = 0,
                            resp_CostUSD = 0, resp_LatencyMs = 0, resp_StopReason = []\<rparr>,
           session = s\<lparr>stream := snd (stream_Send (ChatRequest_Message content) (stream s))\<lparr>inbox := rest\<rparr>\<rparr>,
           callback_state = state_after callback cb0 (chunks_of pre),
           chunks_delivered = delivered_to callback (chunks_of pre)\<rparr>"
proof -
  let ?st = "snd (stream_Send (ChatRequest_Message content) (stream s))"
  have "inbox ?st = map Resp pre @ EOF # rest"
    using assms(3) by (simp add: inbox_stream_Send)
  then have "recv_loop callback ?st (turn0 cb0) =
      Some (None, after_quiet callback pre (turn0 cb0), ?st\<lparr>inbox := rest\<rparr>)"
    using recv_loop_quiet_then [OF assms(4) assms(5), of ?st] by simp
  then show ?thesis
    using Send_open [OF assms(1) assms(2), of content callback cb0]
    by (simp add: after_quiet_turn0 response_of_def)
qed

theorem Send_EOF_without_completion_witness:
  "map_option returned
     (Send ''hi'' None (0::nat)
        (session_on [Resp (ChatResponse_SessionStarted ''s1'' ''anthropic'' ''sonnet''),
                     Resp (ChatResponse_Chunk ''Hel'' 0), Resp (ChatResponse_Chunk ''lo'' 1), EOF])) =
   Some (Inr \<lparr>resp_Content = ''Hello'', resp_Model = [], resp_InputTokens = 0,
              resp_OutputTokens = 0, resp_CostUSD = 0, resp_LatencyMs = 0, resp_StopReason = []\<rparr>)"
  using Send_EOF_without_completion
    [of "session_on [Resp (ChatResponse_SessionStarted ''s1'' ''anthropic'' ''sonnet''),
                     Resp (ChatResponse_Chunk ''Hel'' 0), Resp (ChatResponse_Chunk ''lo'' 1), EOF]"
        "[ChatResponse_SessionStarted ''s1'' ''anthropic'' ''sonnet'',
          ChatResponse_Chunk ''Hel'' 0, ChatResponse_Chunk ''lo'' 1]"
        "[]" None "0::nat" "''hi''"]
  by (simp add: session_on_def send_ok_def)

text \<open>
  C5 as stated fails: these backend events contain no completion and end with the end
  of the stream, and Send returns an error, because an error event is among them.
\<close>

theorem Send_EOF_counterexample:
  "map_option returned
     (Send ''hi'' None (0::nat)
        (session_on [Resp (ChatResponse_Chunk ''Hel'' 0),
                     Resp (ChatResponse_Error ''overloaded'' ''try later'' True), EOF])) =
   Some (Inl (Errorf ''LLM error: try later''))"
  by (simp add: Send_def session_on_def stream_Send_def recv_loop.simps stream_Recv_def)

text \<open>
  C6. On an open session, when the callback returns an error for a chunk that arrives
  after quiet events only (whose chunks it accepted), Send returns that very error:
  the loop stops there, the failing chunk is the last one the callback is called with,
  and the events after it are left unread.
\<close>

theorem Send_callback_failure:
  assumes "\<not> is_done s" and "send_ok (stream s)"
    and "inbox (stream s) = map Resp pre @ Resp (ChatResponse_Chunk a i) # rest"
    and "list_all quiet pre" and "accepts (Some cb) cb0 (chunks_of pre)"
    and "fst (cb \<lparr>chunk_Content = a, chunk_Index = i\<rparr> (state_after (Some cb) cb0 (chunks_of pre))) = Some e"
  shows "Send content (Some cb) cb0 s =
     Some \<lparr>returned = Inl e,
           session = s\<lparr>stream := snd (stream_Send (ChatRequest_Message content) (stream s))\<lparr>inbox := rest\<rparr>\<rparr>,
           callback_state =
             snd (cb \<lparr>chunk_Content = a, chunk_Index = i\<rparr> (state_after (Some cb) cb0 (chunks_of pre))),
           chunks_delivered = chunks_of pre @ [\<lparr>chunk_Content = a, chunk_Index = i\<rparr>]\<rparr>"
proof -
  let ?st = "snd (stream_Send (ChatRequest_Message content) (stream s))"
  let ?t = "after_quiet (Some cb) pre (turn0 cb0)"
  let ?ch = "\<lparr>chunk_Content = a, chunk_Index = i\<rparr>"
  have o: "on_response (Some cb) (ChatResponse_Chunk a i) ?t =
      (Some e, ?t\<lparr>fullContent := fullContent ?t @ a, cb_state := snd (cb ?ch (cb_state ?t)),
                  delivered := delivered ?t @ [?ch]\<rparr>)"
    using assms(6)
    by (cases "cb ?ch (state_after (Some cb) cb0 (chunks_of pre))")
       (simp add: after_quiet_turn0 Let_def)
  have "inbox ?st = map Resp pre @ Resp (ChatResponse_Chunk a i) # rest"
    using assms(3) by (simp add: inbox_stream_Send)
  then have "recv_loop (Some cb) ?st (turn0 cb0) =
      Some (Some e, ?t\<lparr>fullContent := fullContent ?t @ a, cb_state := snd (cb ?ch (cb_state ?t)),
                  delivered := delivered ?t @ [?ch]\<rparr>, ?st\<lparr>inbox := rest\<rparr>)"
    using recv_loop_quiet_then [OF assms(4) assms(5), of ?st] o by simp
  then show ?thesis
    using Send_open [OF assms(1) assms(2), of content "Some cb" cb0]
    by (simp add: after_quiet_turn0 delivered_to_def)
qed

theorem Send_callback_failure_witness:
  "Send ''hi'' (Some (fail_from 1)) 0
     (session_on [Resp (ChatResponse_Chunk ''a'' 0), Resp (ChatResponse_Chunk ''b'' 1),
                  Resp (ChatResponse_Chunk ''c'' 2), Resp (ChatResponse_Completion completion1), EOF]) =
   Some \<lparr>returned = Inl (Errorf ''callback failed''),
         session = \<lparr>stream = \<lparr>sent = [ChatRequest_Message ''hi''], send_script = [],
                              inbox = [Resp (ChatResponse_Chunk ''c'' 2),
                                       Resp (ChatResponse_Completion completion1), EOF],
                              closeSend_calls = 0, closeSend_result = None\<rparr>,
                    apiKey = ''key'', is_done = False\<rparr>,
         callback_state = 2,
         chunks_delivered = [\<lparr>chunk_Content = ''a'', chunk_Index = 0\<rparr>,
                             \<lparr>chunk_Content = ''b'', chunk_Index = 1\<rparr>]\<rparr>"
  using Send_callback_failure
    [of "session_on [Resp (ChatResponse_Chunk ''a'' 0), Resp (ChatResponse_Chunk ''b'' 1),
                  Resp (ChatResponse_Chunk ''c'' 2), Resp (ChatResponse_Completion completion1), EOF]"
        "[ChatResponse_Chunk ''a'' 0]" "''b''" 1
        "[Resp (ChatResponse_Chunk ''c'' 2), Resp (ChatResponse_Completion completion1), EOF]"
        "fail_from 1" 0 "Errorf ''callback failed''" "''hi''"]
  by (simp add: session_on_def send_ok_def fail_from_def stream_Send_def)

section \<open>Close and Abort\<close>

text \<open>After Close, Send returns at once and leaves the session and its stream as they are.\<close>

lemma Send_after_Close:
  "Send content callback cb0 (snd (Close s)) =
     Some \<lparr>returned = Inl (Errorf ''session is closed''), session = snd (Close s),
           callback_state = cb0, chunks_delivered = []\<rparr>"
  by (simp add: Send_def Close_def stream_CloseSend_def)

lemma Close_done: "is_done (snd (Close s))"
  by (simp add: Close_def stream_CloseSend_def)

text \<open>A second Close keeps the flag and calls \<^verbatim>\<open>CloseSend\<close> once more.\<close>

lemma Close_twice:
  "snd (Close (snd (Close s))) =
     (snd (Close s))\<lparr>stream := (stream (snd (Close s)))\<lparr>closeSend_calls := Suc (Suc (closeSend_calls (stream s)))\<rparr>\<rparr>"
  by (simp add: Close_def stream_CloseSend_def)

text \<open>
  C3 at the input that fails: Abort does not look at the flag. Called on a session
  that Close has closed, it hands an abort envelope to the stream's \<^verbatim>\<open>Send\<close>.
\<close>

theorem Abort_after_Close_sends:
  "sent (stream (snd (Abort reason (snd (Close s))))) = sent (stream s) @ [ChatRequest_Abort reason]"
  by (simp add: Abort_def Close_def stream_CloseSend_def stream_Send_def split: list.splits prod.splits)

section \<open>connect\<close>

lemma connect_connected: "conn c \<noteq> None \<Longrightarrow> connect c w = (None, c, w)"
  by (simp add: connect_def)

lemma connect_success:
  assumes "connect c w = (None, c1, w1)"
  shows "conn c1 \<noteq> None"
  using assms
  by (auto simp: connect_def Let_def grpc_NewClient_def
      split: if_splits prod.splits sum.splits option.splits)

lemma connect_step:
  assumes "connect c w = (e, c', w')" and "conn c = None"
  shows "(e \<noteq> None \<and> conn c' = None \<and> conns w' = conns w) \<or>
         (e = None \<and> (\<exists>cn. conn c' = Some cn \<and> conns w' = conns w @ [cn]))"
  using assms
  by (auto simp: connect_def Let_def grpc_NewClient_def fetchConfig_def
      split: if_splits prod.splits sum.splits option.splits)

text \<open>However many calls are made and however many of them fail, at most one connection is made.\<close>

lemma connect_sequence:
  assumes "conn c = None"
  shows "(connect_again ^^ n) (c, w) = (c', w') \<Longrightarrow>
         (conn c' = None \<and> conns w' = conns w) \<or> (\<exists>cn. conn c' = Some cn \<and> conns w' = conns w @ [cn])"
proof (induction n arbitrary: c' w')
  case 0
  then show ?case using assms by simp
next
  case (Suc n)
  obtain c2 w2 where mid: "(connect_again ^^ n) (c, w) = (c2, w2)" by force
  have "connect_again (c2, w2) = (c', w')" using Suc.prems mid by simp
  then obtain e where step: "connect c2 w2 = (e, c', w')"
    by (cases "connect c2 w2") (simp add: connect_again_def)
  show ?case
  proof (cases "conn c2")
    case None
    then have "conns w2 = conns w" using Suc.IH [OF mid] by auto
    then show ?thesis using connect_step [OF step None] by auto
  next
    case (Some cn)
    then have "c' = c2 \<and> w' = w2" using step connect_connected [of c2 w2] by simp
    then show ?thesis using Suc.IH [OF mid] by simp
  qed
qed

text \<open>
  C9. After a call of \<^verbatim>\<open>connect\<close> that returned nil, a further call returns nil
  and changes neither the client nor the world: the connection handle and the resolved
  address stay as they are, no request goes to the config endpoint and no connection is
  made, however often \<^verbatim>\<open>connect\<close> is called. And any number of calls on a client
  that had no connection leaves it either without one, none having been made, or with
  the one connection that has been made.
\<close>

theorem connect_idempotent:
  "(connect c w = (None, c1, w1) \<longrightarrow>
      connect c1 w1 = (None, c1, w1) \<and> (connect_again ^^ n) (c1, w1) = (c1, w1))
   \<and> (conn c = None \<and> (connect_again ^^ n) (c, w) = (c', w') \<longrightarrow>
        (conn c' = None \<and> conns w' = conns w) \<or>
        (\<exists>cn. conn c' = Some cn \<and> conns w' = conns w @ [cn]))"
proof -
  have "connect c1 w1 = (None, c1, w1) \<and> (connect_again ^^ n) (c1, w1) = (c1, w1)"
    if first: "connect c w = (None, c1, w1)"
  proof -
    have again: "connect c1 w1 = (None, c1, w1)"
      using connect_success [OF first] by (rule connect_connected)
    have "(connect_again ^^ n) (c1, w1) = (c1, w1)"
      by (induction n) (simp_all add: connect_again_def again)
    then show ?thesis using again by simp
  qed
  then show ?thesis using connect_sequence [of c n w c' w'] by blast
qed

lemma connect_client1:
  "connect client1 (world1 script) = (None, client1_connected, world1_connected script)"
  by (simp add: connect_def client1_def world1_def fetchConfig_def grpc_NewClient_def
      fmt_d_def digits.simps Let_def client1_connected_def world1_connected_def)

lemma connect_again_client1:
  "connect_again (client1, world1 script) = (client1_connected, world1_connected script)"
  "connect_again (client1_connected, world1_connected script) = (client1_connected, world1_connected script)"
  by (simp_all add: connect_again_def connect_client1 connect_connected client1_connected_def)

theorem connect_idempotent_witness:
  "connect client1 (world1 []) = (None, client1_connected, world1_connected [])
   \<and> connect client1_connected (world1_connected []) = (None, client1_connected, world1_connected [])
   \<and> (connect_again ^^ 3) (client1_connected, world1_connected []) =
       (client1_connected, world1_connected [])
   \<and> conn client1 = None
   \<and> (connect_again ^^ 3) (client1, world1 []) = (client1_connected, world1_connected [])
   \<and> conn client1_connected = Some \<lparr>target = ''levee.example:9889'', tls = True\<rparr>
   \<and> conns (world1_connected []) = conns (world1 []) @ [\<lparr>target = ''levee.example:9889'', tls = True\<rparr>]"
  using connect_idempotent [of client1 "world1 []" client1_connected "world1_connected []" 3
      client1_connected "world1_connected []"]
    connect_client1 [of "[]"] connect_again_client1 [of "[]"]
  by (simp add: eval_nat_numeral client1_def client1_connected_def world1_connected_def world1_def)

section \<open>ChatStream\<close>

text \<open>The receive loop hands nothing to the stream's \<^verbatim>\<open>Send\<close>.\<close>

lemma recv_loop_sent:
  "recv_loop callback st t = Some (e, t', st') \<Longrightarrow> sent st' = sent st"
proof (induction callback st t rule: recv_loop.induct)
  case (1 callback st t)
  show ?case
  proof (cases "inbox st")
    case Nil
    then show ?thesis using "1.prems" by (simp add: recv_loop_Nil)
  next
    case (Cons r rest)
    have rv: "stream_Recv st = Some (r, st\<lparr>inbox := rest\<rparr>)"
      using Cons by (simp add: stream_Recv_def)
    show ?thesis
    proof (cases r)
      case (Resp resp)
      obtain eo t1 where o: "on_response callback resp t = (eo, t1)" by force
      show ?thesis
      proof (cases "eo = None \<and> completion t1 = None")
        case True
        then have "recv_loop callback st t = recv_loop callback (st\<lparr>inbox := rest\<rparr>) t1"
          using recv_loop_Cons [OF Cons, of callback t] Resp o by simp
        moreover have "recv_loop callback (st\<lparr>inbox := rest\<rparr>) t1 = Some (e, t', st') \<Longrightarrow>
            sent st' = sent (st\<lparr>inbox := rest\<rparr>)"
          using "1.IH" [OF rv refl Resp o [symmetric]] True by simp
        ultimately show ?thesis using "1.prems" by simp
      next
        case False
        then show ?thesis
          using recv_loop_Cons [OF Cons, of callback t] Resp o "1.prems"
          by (cases eo) (auto split: if_splits)
      qed
    next
      case EOF
      then show ?thesis using recv_loop_Cons [OF Cons, of callback t] "1.prems" by auto
    next
      case (RecvErr err)
      then show ?thesis using recv_loop_Cons [OF Cons, of callback t] "1.prems" by auto
    qed
  qed
qed

lemma Send_sent:
  assumes "Send content callback cb0 s = Some r" and "\<not> is_done s"
  shows "sent (stream (session r)) = sent (stream s) @ [ChatRequest_Message content]"
proof (cases "stream_Send (ChatRequest_Message content) (stream s)")
  case (Pair eo st)
  have st: "sent st = sent (stream s) @ [ChatRequest_Message content]"
    using sent_stream_Send [of "ChatRequest_Message content" "stream s"] Pair by simp
  show ?thesis
  proof (cases eo)
    case (Some err)
    then show ?thesis using assms Pair st by (auto simp: Send_def)
  next
    case None
    show ?thesis
    proof (cases "recv_loop callback st (turn0 cb0)")
      case None
      then show ?thesis using assms Pair \<open>eo = None\<close> by (simp add: Send_def turn0_def)
    next
      case (Some res)
      obtain e t st' where res: "res = (e, t, st')" by (cases res) auto
      have "sent st' = sent st" using recv_loop_sent Some res by blast
      then show ?thesis
        using assms Pair \<open>eo = None\<close> Some res st
        by (cases e) (auto simp: Send_def turn0_def)
    qed
  qed
qed

lemma sent_Close: "sent (stream (snd (Close s))) = sent (stream s)"
  by (simp add: Close_def stream_CloseSend_def)

lemma ChatStream_invalid:
  assumes "Messages req = [] \<or> Role (last (Messages req)) \<noteq> ''user''"
  shows "\<exists>r. ChatStream req callback cb0 c w = Some r \<and> isl (cs_returned r)"
proof (cases "NewChatSession (bare_request req) c w")
  case (fields res c1 w1)
  show ?thesis
  proof (cases res)
    case (Inl err)
    then show ?thesis using fields by (simp add: ChatStream_def bare_request_def)
  next
    case (Inr s)
    then show ?thesis using fields assms
      by (auto simp: ChatStream_def bare_request_def Let_def last_conv_nth)
  qed
qed

lemma ChatStream_last:
  assumes "Messages req \<noteq> []"
  shows "ChatStream req callback cb0 c w =
         ChatStream (req\<lparr>Messages := [last (Messages req)]\<rparr>) callback cb0 c w"
proof (cases "NewChatSession (bare_request req) c w")
  case (fields res c1 w1)
  show ?thesis
  proof (cases res)
    case (Inl err)
    then show ?thesis using fields by (simp add: ChatStream_def bare_request_def)
  next
    case (Inr s)
    then show ?thesis using fields assms
      by (simp add: ChatStream_def bare_request_def Let_def last_conv_nth)
  qed
qed

lemma ChatStream_sent:
  assumes "Messages req \<noteq> []" and "Role (last (Messages req)) = ''user''"
    and "ChatStream req callback cb0 c w = Some r" and "cs_session r = Some s"
    and "connect c w = (None, c1, w1)" and "Chat_reply w1 (Chat_calls w1) = Inr st0"
  shows "sent (stream s) =
           sent st0 @
           [ChatRequest_Start
              \<lparr>start_ApiKey = llm_apiKey c1, start_SystemPrompt = SystemPrompt req,
               start_Model = Model req, start_MaxTokens = MaxTokens req,
               start_Temperature = Temperature req, start_Messages = []\<rparr>,
            ChatRequest_Message (Content (last (Messages req)))]"
proof -
  let ?start = "ChatRequest_Start
              \<lparr>start_ApiKey = llm_apiKey c1, start_SystemPrompt = SystemPrompt req,
               start_Model = Model req, start_MaxTokens = MaxTokens req,
               start_Temperature = Temperature req, start_Messages = []\<rparr>"
  obtain eo st1 where snd1: "stream_Send ?start st0 = (eo, st1)" by force
  have st1: "sent st1 = sent st0 @ [?start]"
    using sent_stream_Send [of ?start st0] snd1 by simp
  have new: "NewChatSession (bare_request req) c w =
      (case eo of Some err \<Rightarrow> (Inl (Wrapf ''failed to send start request: '' err), c1, Chat_bump)
       | None \<Rightarrow> (Inr \<lparr>stream = st1, apiKey = llm_apiKey c1, is_done = False\<rparr>, c1, Chat_bump))"
    if "Chat_bump = w1\<lparr>Chat_calls := Suc (Chat_calls w1)\<rparr>" for Chat_bump
    using assms(5,6) snd1 that
    by (simp add: NewChatSession_def client_Chat_def bare_request_def convert_messages_def
        split: option.splits)
  show ?thesis
  proof (cases eo)
    case (Some err)
    then show ?thesis using new [OF refl] assms(3,4)
      by (auto simp: ChatStream_def bare_request_def)
  next
    case None
    let ?s0 = "\<lparr>stream = st1, apiKey = llm_apiKey c1, is_done = False\<rparr>"
    let ?content = "Content (last (Messages req))"
    obtain r0 where r0: "Send ?content callback cb0 ?s0 = Some r0"
      and s: "s = snd (Close (session r0))"
      using new [OF refl] None assms(1,2,3,4)
      by (auto simp: ChatStream_def bare_request_def Let_def last_conv_nth split: option.splits)
    have "sent (stream (session r0)) = sent st1 @ [ChatRequest_Message ?content]"
      using Send_sent [OF r0] by simp
    then show ?thesis using s st1 by (simp add: sent_Close)
  qed
qed

text \<open>
  C10. \<^verbatim>\<open>ChatStream\<close> returns an error when the request has no message or when its
  last message is not from the user. With at least one message, the call is the same
  call as with the last message alone: the messages before it have no effect. When the
  last message is from the user and the call returns, the stream that the call opened
  has been handed two envelopes: a start envelope without messages, then the content of
  the last message as the user turn.
\<close>

theorem ChatStream_last_message_only:
  "(Messages req = [] \<or> Role (last (Messages req)) \<noteq> ''user'' \<longrightarrow>
      (\<exists>r. ChatStream req callback cb0 c w = Some r \<and> isl (cs_returned r)))
   \<and> (Messages req \<noteq> [] \<longrightarrow>
        ChatStream req callback cb0 c w =
        ChatStream (req\<lparr>Messages := [last (Messages req)]\<rparr>) callback cb0 c w)
   \<and> (\<forall>r s c1 w1 st0.
        Messages req \<noteq> [] \<and> Role (last (Messages req)) = ''user'' \<and>
        ChatStream req callback cb0 c w = Some r \<and> cs_session r = Some s \<and>
        connect c w = (None, c1, w1) \<and> Chat_reply w1 (Chat_calls w1) = Inr st0 \<longrightarrow>
        sent (stream s) =
          sent st0 @
          [ChatRequest_Start
             \<lparr>start_ApiKey = llm_apiKey c1, start_SystemPrompt = SystemPrompt req,
              start_Model = Model req, start_MaxTokens = MaxTokens req,
              start_Temperature = Temperature req, start_Messages = []\<rparr>,
           ChatRequest_Message (Content (last (Messages req)))])"
  using ChatStream_invalid [of req callback cb0 c w] ChatStream_last [of req callback cb0 c w]
    ChatStream_sent [of req callback cb0 c w]
  by blast

lemma ChatStream_request1:
  "ChatStream request1 (Some count_chunks) 0 client1
        (world1 [Resp (ChatResponse_Chunk ''Ada'' 0), Resp (ChatResponse_Completion completion1)]) =
   Some \<lparr>cs_returned = Inr \<lparr>resp_Content = ''Hello, world'', resp_Model = [],
                             resp_InputTokens = 12, resp_OutputTokens = 3, resp_CostUSD = 7,
                             resp_LatencyMs = 250, resp_StopReason = ''end_turn''\<rparr>,
         cs_session = Some
           \<lparr>stream = \<lparr>sent = [ChatRequest_Start
                                 \<lparr>start_ApiKey = ''key'', start_SystemPrompt = ''Be brief'',
                                  start_Model = ''sonnet'', start_MaxTokens = 1024,
                                  start_Temperature = 1060320051, start_Messages = []\<rparr>,
                               ChatRequest_Message ''What is my name?''],
                       send_script = [], inbox = [], closeSend_calls = 1,
                       closeSend_result = None\<rparr>,
            apiKey = ''key'', is_done = True\<rparr>,
         cs_callback_state = 1,
         cs_chunks_delivered = [\<lparr>chunk_Content = ''Ada'', chunk_Index = 0\<rparr>],
         cs_client = client1_connected,
         cs_world = (world1_connected [Resp (ChatResponse_Chunk ''Ada'' 0),
                                       Resp (ChatResponse_Completion completion1)])
             \<lparr>Chat_calls := 1\<rparr>\<rparr>"
  unfolding ChatStream_def NewChatSession_def connect_client1
  by (simp add: client_Chat_def world1_def
      convert_messages_def stream_Send_def request1_def Send_def recv_loop.simps stream_Recv_def
      count_chunks_def Close_def stream_CloseSend_def client1_def Let_def response_of_def
      client1_connected_def world1_connected_def
      completion1_def)

theorem ChatStream_last_message_only_witness:
  "(\<exists>r. ChatStream (request1\<lparr>Messages := []\<rparr>) (Some count_chunks) 0 client1 (world1 []) = Some r \<and>
        isl (cs_returned r))
   \<and> ChatStream request1 (Some count_chunks) 0 client1
        (world1 [Resp (ChatResponse_Chunk ''Ada'' 0), Resp (ChatResponse_Completion completion1)]) =
     ChatStream (request1\<lparr>Messages := [\<lparr>Role = ''user'', Content = ''What is my name?''\<rparr>]\<rparr>)
        (Some count_chunks) 0 client1
        (world1 [Resp (ChatResponse_Chunk ''Ada'' 0), Resp (ChatResponse_Completion completion1)])
   \<and> (\<exists>r s. ChatStream request1 (Some count_chunks) 0 client1
        (world1 [Resp (ChatResponse_Chunk ''Ada'' 0), Resp (ChatResponse_Completion completion1)]) = Some r \<and>
        cs_session r = Some s \<and>
        sent (stream s) =
          [ChatRequest_Start
             \<lparr>start_ApiKey = ''key'', start_SystemPrompt = ''Be brief'',
              start_Model = ''sonnet'', start_MaxTokens = 1024,
              start_Temperature = 1060320051, start_Messages = []\<rparr>,
           ChatRequest_Message ''What is my name?''])"
proof -
  let ?script = "[Resp (ChatResponse_Chunk ''Ada'' 0), Resp (ChatResponse_Completion completion1)]"
  let ?w = "world1 ?script"
  have a: "Messages (request1\<lparr>Messages := []\<rparr>) = []" by simp
  have b: "Messages request1 \<noteq> []"
    and l: "last (Messages request1) = \<lparr>Role = ''user'', Content = ''What is my name?''\<rparr>"
    by (simp_all add: request1_def)
  have 1: "\<exists>r. ChatStream (request1\<lparr>Messages := []\<rparr>) (Some count_chunks) 0 client1 (world1 []) = Some r \<and>
        isl (cs_returned r)"
    using ChatStream_last_message_only
      [of "request1\<lparr>Messages := []\<rparr>" "Some count_chunks" 0 client1 "world1 []"] a by blast
  have 2: "ChatStream request1 (Some count_chunks) 0 client1 ?w =
     ChatStream (request1\<lparr>Messages := [\<lparr>Role = ''user'', Content = ''What is my name?''\<rparr>]\<rparr>)
        (Some count_chunks) 0 client1 ?w"
    using ChatStream_last_message_only [of request1 "Some count_chunks" 0 client1 ?w] b l by simp
  obtain r where r: "ChatStream request1 (Some count_chunks) 0 client1 ?w = Some r"
    using ChatStream_request1 by simp
  obtain s where s: "cs_session r = Some s"
    using ChatStream_request1 r by auto
  have c: "Chat_reply (world1_connected ?script) (Chat_calls (world1_connected ?script)) =
           Inr \<lparr>sent = [], send_script = [], inbox = ?script,
                closeSend_calls = 0, closeSend_result = None\<rparr>"
    by (simp add: world1_def world1_connected_def)
  have "sent (stream s) =
          [ChatRequest_Start
             \<lparr>start_ApiKey = ''key'', start_SystemPrompt = ''Be brief'',
              start_Model = ''sonnet'', start_MaxTokens = 1024,
              start_Temperature = 1060320051, start_Messages = []\<rparr>,
           ChatRequest_Message ''What is my name?'']"
    using ChatStream_last_message_only [of request1 "Some count_chunks" 0 client1 ?w,
        THEN conjunct2, THEN conjunct2, rule_format, of r s _ _ _]
      b l r s connect_client1 c
    by (simp add: request1_def client1_def client1_connected_def)
  then have 3: "\<exists>r s. ChatStream request1 (Some count_chunks) 0 client1 ?w = Some r \<and>
        cs_session r = Some s \<and>
        sent (stream s) =
          [ChatRequest_Start
             \<lparr>start_ApiKey = ''key'', start_SystemPrompt = ''Be brief'',
              start_Model = ''sonnet'', start_MaxTokens = 1024,
              start_Temperature = 1060320051, start_Messages = []\<rparr>,
           ChatRequest_Message ''What is my name?'']"
    using r s by blast
  show ?thesis using 1 2 3 by blast
qed

section \<open>The relay\<close>

text \<open>
  C7. A frame of type \<^verbatim>\<open>message\<close> that reaches a relay session whose \<open>started\<close> flag
  is false makes the session write exactly one message to the socket, an error with the
  code \<^verbatim>\<open>not_started\<close>; the session is otherwise unchanged and so is the world: no
  method of the backend stream is called and no stream is opened.
\<close>

theorem message_before_start:
  assumes "\<not> started s" and "Unmarshal_WSMessage J frame = Inr (''message'', data)"
  shows "run_frame J frame s w =
     (s\<lparr>written := written s @
          [(''error'', WSErrorResponse ''not_started'' ''Session not started'' False)]\<rparr>, w)"
  using assms by (simp add: run_frame_def handleMessage_def sendError_def send_def)

lemma toy_frame:
  "Unmarshal_WSMessage toy_json ''message hello'' = Inr (''message'', ''hello'')"
  "Unmarshal_WSMessage toy_json ''start Be brief'' = Inr (''start'', ''Be brief'')"
  "Unmarshal_WSMessage toy_json ''start again'' = Inr (''start'', ''again'')"
  by (simp_all add: toy_json_def)

theorem message_before_start_witness:
  "run_frame toy_json ''message hello'' (new_wsSession client1) (world1 []) =
     (\<lparr>written = [(''error'', WSErrorResponse ''not_started'' ''Session not started'' False)],
       llm = client1, ws_stream = None, started = False, readers = 0\<rparr>, world1 [])"
  using message_before_start [of "new_wsSession client1" toy_json "''message hello''" "''hello''" "world1 []"]
    toy_frame(1)
  by (simp add: new_wsSession_def)

text \<open>
  C8. A frame of type \<^verbatim>\<open>start\<close> that reaches a relay session that has started makes
  the session write one error with the code \<^verbatim>\<open>already_started\<close>, not retryable, and
  changes nothing else: the stream and the flag are as before. A later frame of type
  \<^verbatim>\<open>message\<close> is forwarded on the stream of the first start.
\<close>

theorem second_start_rejected:
  assumes "started s" and "Unmarshal_WSMessage J frame = Inr (''start'', data)"
  shows "run_frame J frame s w =
     (s\<lparr>written := written s @
          [(''error'', WSErrorResponse ''already_started'' ''Session already started'' False)]\<rparr>, w)
   \<and> (\<forall>frame2 data2 content st.
        ws_stream s = Some st \<and> Unmarshal_WSMessage J frame2 = Inr (''message'', data2) \<and>
        Unmarshal_WSUserMessage J data2 = Inr content \<longrightarrow>
        ws_stream (fst (run_frame J frame2 (fst (run_frame J frame s w)) w)) =
          Some (snd (stream_Send (ChatRequest_Message content) st)))"
proof -
  have 1: "run_frame J frame s w =
     (s\<lparr>written := written s @
          [(''error'', WSErrorResponse ''already_started'' ''Session already started'' False)]\<rparr>, w)"
    using assms by (simp add: run_frame_def handleStart_def sendError_def send_def)
  have 2: "ws_stream (fst (run_frame J frame2 (fst (run_frame J frame s w)) w)) =
          Some (snd (stream_Send (ChatRequest_Message content) st))"
    if "ws_stream s = Some st" and "Unmarshal_WSMessage J frame2 = Inr (''message'', data2)"
      and "Unmarshal_WSUserMessage J data2 = Inr content" for frame2 data2 content st
    using that assms(1) unfolding 1
    by (cases "stream_Send (ChatRequest_Message content) st")
       (simp add: run_frame_def handleMessage_def sendError_def send_def split: option.splits)
  show ?thesis using 1 2 by blast
qed

text \<open>The session and the world of the witness are those a first start frame gives.\<close>

lemma toy_start:
  "Unmarshal_WSStartRequest toy_json d =
     Inr \<lparr>ws_SystemPrompt = d, ws_Model = ''sonnet'', ws_MaxTokens = 1024,
          ws_Temperature = 0, ws_Messages = []\<rparr>"
  by (simp add: toy_json_def)

lemma first_start:
  "run_frame toy_json ''start Be brief'' (new_wsSession client1) (world1 []) = (started1, world1_started)"
  unfolding run_frame_def toy_frame
  apply (simp add: handleStart_def new_wsSession_def connect_client1 client_Chat_def toy_start)
  apply (simp add: world1_def toy_json_def convert_messages_def stream_Send_def started1_def
      stream1_def client1_connected_def world1_started_def client1_def world1_connected_def)
  done

theorem second_start_rejected_witness:
  "run_frame toy_json ''start again'' started1 world1_started =
     (started1\<lparr>written :=
         [(''error'', WSErrorResponse ''already_started'' ''Session already started'' False)]\<rparr>,
      world1_started)
   \<and> ws_stream (fst (run_frame toy_json ''message hello''
                      (fst (run_frame toy_json ''start again'' started1 world1_started))
                      world1_started)) =
       Some (stream1\<lparr>sent := sent stream1 @ [ChatRequest_Message ''hello'']\<rparr>)"
proof -
  have s: "started started1" and st: "ws_stream started1 = Some stream1"
    and w: "written started1 = []"
    by (simp_all add: started1_def)
  have u: "Unmarshal_WSUserMessage toy_json ''hello'' = Inr ''hello''" by (simp add: toy_json_def)
  have snd: "snd (stream_Send (ChatRequest_Message ''hello'') stream1) =
      stream1\<lparr>sent := sent stream1 @ [ChatRequest_Message ''hello'']\<rparr>"
    by (simp add: stream_Send_def stream1_def)
  note T = second_start_rejected [OF s toy_frame(3), of world1_started]
  have 1: "run_frame toy_json ''start again'' started1 world1_started =
     (started1\<lparr>written :=
         [(''error'', WSErrorResponse ''already_started'' ''Session already started'' False)]\<rparr>,
      world1_started)"
    using T w by simp
  have 2: "ws_stream (fst (run_frame toy_json ''message hello''
                      (fst (run_frame toy_json ''start again'' started1 world1_started))
                      world1_started)) =
       Some (snd (stream_Send (ChatRequest_Message ''hello'') stream1))"
    using T st toy_frame(1) u by blast
  show ?thesis using 1 2 snd by simp
qed

text \<open>
  Between frames, a session that has not started has no forwarding task, so nothing
  but the handlers above writes to its socket.
\<close>

lemma relay_inv_new: "relay_inv (new_wsSession c)"
  by (simp add: relay_inv_def new_wsSession_def)

lemma relay_inv_run_frame:
  assumes "relay_inv s"
  shows "relay_inv (fst (run_frame J message s w))"
  using assms
  by (auto simp: relay_inv_def run_frame_def handleStart_def handleMessage_def handleAbort_def
      handleToolResult_def sendError_def send_def Let_def
      split: sum.splits prod.splits option.splits if_splits)

lemma relay_inv_run: "relay_inv s \<Longrightarrow> relay_inv (fst (run J messages s w))"
proof (induction messages arbitrary: s w)
  case Nil
  then show ?case by simp
next
  case (Cons m ms)
  obtain s1 w1 where st: "run_frame J m s w = (s1, w1)" by force
  have "relay_inv s1" using relay_inv_run_frame [OF Cons.prems, of J m w] st by simp
  then show ?case using Cons.IH [of s1 w1] st by simp
qed

end
